theory Spec2Isabelle
  imports Main
begin

section \<open>Python values, errors and strings\<close>

text \<open>
  The module \<^verbatim>\<open>feature_description_runon.py\<close> renders a feature tree as an English
  phrase. A Python string is a \<^typ>\<open>string\<close>, one \<^typ>\<open>char\<close> for each of its
  characters. Every exception the module can raise is a value of \<open>error\<close>, and a
  function that can raise returns \<open>error + 'a\<close> with \<open>Inl\<close> for the exception.
\<close>

datatype error =
    TypeError
  | AttributeError
  | IndexError
  | UnboundLocalError
  | FileNotFoundError
  | PermissionError
  | JSONDecodeError
  | PrimitiveError

text \<open>A description is a string, or Python's \<^verbatim>\<open>None\<close> when a lookup finds nothing.\<close>

datatype pyval = PyNone | PyStr string

text \<open>A primitive template is a string or a list of strings.\<close>

datatype template = TemplateStr string | TemplateList "string list"

definition dq :: char where
  "dq = CHR 0x22"

definition quoted :: "string \<Rightarrow> string" where
  \<comment> \<open>\<^verbatim>\<open>'"{}"'.format(s)\<close>\<close>
  "quoted s = dq # s @ [dq]"

text \<open>
  The module calls two methods of Python's strings, \<^verbatim>\<open>str.upper\<close> and
  \<^verbatim>\<open>str.lower\<close>. Their case mappings are those of Unicode and belong to Python, not
  to this module: they are parameters of the model, and every theorem holds whatever
  the two functions are.
\<close>

record str_methods =
  str_upper :: "string \<Rightarrow> string"
  str_lower :: "string \<Rightarrow> string"

fun join :: "string \<Rightarrow> string list \<Rightarrow> string" where
  \<comment> \<open>\<^verbatim>\<open>sep.join(xs)\<close>\<close>
  "join sep [] = []"
| "join sep [x] = x"
| "join sep (x # y # ys) = x @ sep @ join sep (y # ys)"

definition startswith :: "string \<Rightarrow> string \<Rightarrow> bool" where
  "startswith s p = (take (length p) s = p)"

definition format_val :: "pyval \<Rightarrow> string" where
  \<comment> \<open>what \<^verbatim>\<open>'{}'.format(v)\<close> prints\<close>
  "format_val v = (case v of PyNone \<Rightarrow> ''None'' | PyStr s \<Rightarrow> s)"

definition truthy :: "pyval \<Rightarrow> bool" where
  "truthy v = (case v of PyNone \<Rightarrow> False | PyStr s \<Rightarrow> s \<noteq> [])"

definition py_or :: "pyval \<Rightarrow> pyval \<Rightarrow> pyval" where
  \<comment> \<open>\<^verbatim>\<open>a or b\<close>\<close>
  "py_or a b = (if truthy a then a else b)"

definition truthy_template :: "template \<Rightarrow> bool" where
  "truthy_template t = (case t of TemplateStr s \<Rightarrow> s \<noteq> [] | TemplateList l \<Rightarrow> l \<noteq> [])"

definition template_or :: "template option \<Rightarrow> template option \<Rightarrow> template option" where
  "template_or a b =
     (case a of None \<Rightarrow> b | Some t \<Rightarrow> if truthy_template t then Some t else b)"

fun sequence :: "(error + 'a) list \<Rightarrow> error + 'a list" where
  \<comment> \<open>results of a loop body run over a list: the first exception ends the loop\<close>
  "sequence [] = Inr []"
| "sequence (r # rs) =
     (case r of Inl e \<Rightarrow> Inl e
      | Inr v \<Rightarrow> (case sequence rs of Inl e \<Rightarrow> Inl e | Inr vs \<Rightarrow> Inr (v # vs)))"

section \<open>The feature model consumed by the renderer\<close>

text \<open>
  The feature classes live outside this module. A feature is modelled with the
  attributes the renderer reads. \<open>feature_key\<close> is the feature as a dictionary key
  (the class of objects a dictionary lookup with the feature finds); \<open>kind\<close> is the
  class that the \<^verbatim>\<open>isinstance\<close> tests of the module distinguish. An attribute a class
  does not have is \<open>None\<close>.
\<close>

type_synonym obj = nat

datatype dkey = ObjKey obj | NameKey string

type_synonym descriptions = "dkey \<rightharpoonup> string"
type_synonym templates = "dkey \<rightharpoonup> template"

datatype kind =
    IdentityFeature
  | DirectFeature
  | AggregationFeature
  | TransformFeature
  | GroupByTransformFeature
  | FeatureOutputSlice

record relationship =
  parent_entity_id :: string
  child_entity_id :: string

text \<open>
  \<open>index_feature_key\<close> and \<open>index_feature_unique_name\<close> are the dictionary key and
  the \<^verbatim>\<open>unique_name()\<close> of \<^verbatim>\<open>ft.IdentityFeature(entity[entity.index])\<close>, a class
  defined outside this module.
\<close>

record entity_rec =
  entity_ident :: string
  entity_index :: string
  index_feature_key :: obj
  index_feature_unique_name :: string

text \<open>
  \<open>prim_value\<close> is the primitive's \<^verbatim>\<open>value\<close> as \<^verbatim>\<open>format\<close> prints it;
  \<open>get_description\<close> is the primitive's own renderer, which this module only calls.
\<close>

datatype primitive = Primitive
  (prim_key: obj)
  (prim_name: string)
  (prim_value: string)
  (get_description: "pyval list \<Rightarrow> int option \<Rightarrow> template option \<Rightarrow> error + string")

datatype feature = Feature
  (feature_key: obj)
  (kind: kind)
  (unique_name: string)
  (get_name: string)
  (base_features: "feature list")
  (primitive: primitive)
  (entity: entity_rec)
  (relationship_path: "relationship list")
  (where_f: "feature option")
  (use_previous: "string option")
  (base_feature: "feature option")
  (slice_n: int)

definition dict_contains :: "(dkey \<rightharpoonup> 'v) \<Rightarrow> dkey \<Rightarrow> bool" where
  \<comment> \<open>\<^verbatim>\<open>k in d\<close>\<close>
  "dict_contains d k = (d k \<noteq> None)"

definition dict_get :: "descriptions \<Rightarrow> dkey \<Rightarrow> pyval" where
  \<comment> \<open>\<^verbatim>\<open>d.get(k)\<close>\<close>
  "dict_get d k = (case d k of None \<Rightarrow> PyNone | Some s \<Rightarrow> PyStr s)"

definition last_hop :: "feature \<Rightarrow> error + relationship" where
  \<comment> \<open>\<^verbatim>\<open>feature.relationship_path[-1][1]\<close>\<close>
  "last_hop f = (if relationship_path f = [] then Inl IndexError
                 else Inr (last (relationship_path f)))"

text \<open>Children of a feature are smaller than the feature: the tree is finite.\<close>

lemma size_base_features: "size_list size (base_features f) < size f"
  by (cases f) simp

lemma size_in_base_features: "c \<in> set (base_features f) \<Longrightarrow> size c < size f"
proof -
  assume "c \<in> set (base_features f)"
  then have "size c \<le> size_list size (base_features f)"
    by (simp add: size_list_estimation')
  then show ?thesis using size_base_features [of f] by simp
qed

lemma size_where_f: "where_f f = Some w \<Longrightarrow> size w < size f"
  by (cases f) simp

lemma size_base_feature: "base_feature f = Some b \<Longrightarrow> size b < size f"
  by (cases f) simp

section \<open>The direct-feature unwinder\<close>

text \<open>
  The loop of \<^verbatim>\<open>get_direct_description\<close>: \<open>bfs\<close> is \<^verbatim>\<open>base_features\<close> and \<open>dd\<close> is
  \<^verbatim>\<open>direct_description\<close>.
\<close>

function direct_loop :: "feature list \<Rightarrow> string \<Rightarrow> error + (feature \<times> string)" where
  "direct_loop bfs dd =
     (case bfs of
        [] \<Rightarrow> Inl IndexError
      | base_feat # _ \<Rightarrow>
          if kind base_feat = DirectFeature then
            (case last_hop base_feat of
               Inl e \<Rightarrow> Inl e
             | Inr r \<Rightarrow>
                 direct_loop (base_features base_feat)
                   (('' the instance of '' @ quoted (parent_entity_id r) @ '' associated with'') @ dd))
          else Inr (base_feat, '' of'' @ dd))"
  by pat_completeness auto
termination
  by (relation "measure (\<lambda>(bfs, dd). size_list size bfs)")
    (auto intro: less_trans [OF size_base_features])

definition get_direct_description :: "feature \<Rightarrow> error + (feature \<times> string)" where
  "get_direct_description feature =
     (case last_hop feature of
        Inl e \<Rightarrow> Inl e
      | Inr r \<Rightarrow>
          direct_loop (base_features feature)
            ('' the instance of '' @ quoted (parent_entity_id r)
               @ '' associated with this instance of '' @ quoted (entity_ident (entity feature))))"

text \<open>
  What the unwinder is to return, in the words of its contract: the innermost
  non-direct base feature, reached from the first base feature by going to the first
  base feature as long as the feature at hand is a direct feature (with a relationship
  path to read its parent entity from).
\<close>

function innermost_base :: "feature list \<Rightarrow> feature option" where
  "innermost_base bfs =
     (case bfs of
        [] \<Rightarrow> None
      | b # _ \<Rightarrow>
          if kind b = DirectFeature then
            (if relationship_path b = [] then None else innermost_base (base_features b))
          else Some b)"
  by pat_completeness auto
termination
  by (relation "measure (size_list size)")
    (auto intro: less_trans [OF size_base_features])

declare innermost_base.simps [simp del]

section \<open>The group-by name resolver\<close>

definition get_aggregation_groupby :: "feature \<Rightarrow> descriptions \<Rightarrow> error + string" where
  "get_aggregation_groupby feature feature_descriptions =
     (let groupby_name = entity_index (entity feature);
          k = ObjKey (index_feature_key (entity feature));
          nm = NameKey (index_feature_unique_name (entity feature))
      in if dict_contains feature_descriptions k \<or> dict_contains feature_descriptions nm then
           (case py_or (dict_get feature_descriptions k) (dict_get feature_descriptions nm) of
              PyNone \<Rightarrow> Inl AttributeError
            | PyStr description \<Rightarrow>
                if startswith description ''the '' then Inr (drop 4 description)
                else Inr description)
         else Inr (quoted groupby_name @ '' in '' @ quoted (entity_ident (entity feature))))"

section \<open>The recursive description generator\<close>

text \<open>The straight-line pieces of \<^verbatim>\<open>generate_description\<close>, in source order.\<close>

definition has_description :: "feature \<Rightarrow> descriptions \<Rightarrow> bool" where
  \<comment> \<open>\<^verbatim>\<open>feature in feature_descriptions or feature.unique_name() in feature_descriptions\<close>\<close>
  "has_description feature feature_descriptions =
     (dict_contains feature_descriptions (ObjKey (feature_key feature))
      \<or> dict_contains feature_descriptions (NameKey (unique_name feature)))"

definition lookup_description :: "feature \<Rightarrow> descriptions \<Rightarrow> pyval" where
  \<comment> \<open>\<^verbatim>\<open>feature_descriptions.get(feature) or feature_descriptions.get(feature.unique_name())\<close>\<close>
  "lookup_description feature feature_descriptions =
     py_or (dict_get feature_descriptions (ObjKey (feature_key feature)))
           (dict_get feature_descriptions (NameKey (unique_name feature)))"

definition input_columns :: "feature \<Rightarrow> error + feature list" where
  "input_columns feature =
     (if kind feature = FeatureOutputSlice then
        (case base_feature feature of
           None \<Rightarrow> Inl AttributeError
         | Some b \<Rightarrow> Inr (base_features b))
      else Inr (base_features feature))"

definition pop_groupby :: "feature \<Rightarrow> pyval list \<Rightarrow> error + (pyval list \<times> pyval option)" where
  \<comment> \<open>\<^verbatim>\<open>groupby_description = input_descriptions.pop()\<close> for a group-by transform;
      otherwise \<^verbatim>\<open>groupby_description\<close> stays unbound (\<open>None\<close> here)\<close>
  "pop_groupby feature input_descriptions =
     (if kind feature = GroupByTransformFeature then
        (if input_descriptions = [] then Inl IndexError
         else Inr (butlast input_descriptions, Some (last input_descriptions)))
      else Inr (input_descriptions, None))"

definition slice_num :: "feature \<Rightarrow> int option" where
  "slice_num feature =
     (if kind feature = FeatureOutputSlice then Some (slice_n feature) else None)"

definition template_override :: "feature \<Rightarrow> templates \<Rightarrow> template option" where
  "template_override feature primitive_templates =
     (if dict_contains primitive_templates (ObjKey (prim_key (primitive feature)))
         \<or> dict_contains primitive_templates (NameKey (prim_name (primitive feature)))
      then template_or (primitive_templates (ObjKey (prim_key (primitive feature))))
                       (primitive_templates (NameKey (prim_name (primitive feature))))
      else None)"

definition unwrap :: "feature \<Rightarrow> error + feature" where
  \<comment> \<open>\<^verbatim>\<open>if isinstance(feature, FeatureOutputSlice): feature = feature.base_feature\<close>\<close>
  "unwrap feature =
     (if kind feature = FeatureOutputSlice then
        (case base_feature feature of None \<Rightarrow> Inl AttributeError | Some b \<Rightarrow> Inr b)
      else Inr feature)"

definition groupby_phrase :: "feature \<Rightarrow> descriptions \<Rightarrow> pyval option \<Rightarrow> error + string" where
  "groupby_phrase feature feature_descriptions groupby_description =
     (if kind feature = AggregationFeature then
        (case get_aggregation_groupby feature feature_descriptions of
           Inl e \<Rightarrow> Inl e
         | Inr groupby_name \<Rightarrow> Inr (''for each '' @ groupby_name))
      else if kind feature = GroupByTransformFeature then
        (case groupby_description of
           None \<Rightarrow> Inl UnboundLocalError
         | Some d \<Rightarrow> Inr (''for each '' @ format_val d))
      else Inr [])"

definition entity_description :: "str_methods \<Rightarrow> feature \<Rightarrow> error + string" where
  "entity_description py feature =
     (if kind feature = AggregationFeature then
        (case last_hop feature of
           Inl e \<Rightarrow> Inl e
         | Inr r \<Rightarrow>
             Inr ((case use_previous feature of
                     Some window \<Rightarrow> ''of the previous '' @ str_lower py window @ '' of ''
                   | None \<Rightarrow> ''of all instances of '')
                  @ quoted (child_entity_id r)))
      else Inr [])"

definition where_text :: "pyval \<Rightarrow> string \<Rightarrow> string" where
  \<comment> \<open>\<^verbatim>\<open>'where {} is {}'.format(where_col, where_value)\<close>\<close>
  "where_text where_col where_value =
     ''where '' @ format_val where_col @ '' is '' @ where_value"

definition join_template :: "string list \<Rightarrow> string" where
  \<comment> \<open>\<^verbatim>\<open>" ".join([phrase for phrase in description_template if phrase != ''])\<close>\<close>
  "join_template description_template =
     join '' '' (filter (\<lambda>phrase. phrase \<noteq> []) description_template)"

lemma direct_loop_size:
  "direct_loop bfs dd = Inr (b, d) \<Longrightarrow> size b \<le> size_list size bfs"
proof (induction bfs dd rule: direct_loop.induct)
  case (1 bfs dd)
  show ?case
  proof (cases bfs)
    case Nil
    with "1.prems" show ?thesis by simp
  next
    case (Cons base_feat rest)
    show ?thesis
    proof (cases "kind base_feat = DirectFeature")
      case False
      with "1.prems" Cons show ?thesis by simp
    next
      case True
      with "1.prems" Cons obtain r where r: "last_hop base_feat = Inr r"
        by (cases "last_hop base_feat") auto
      with "1.prems" Cons True
      have "direct_loop (base_features base_feat)
              (('' the instance of '' @ quoted (parent_entity_id r) @ '' associated with'') @ dd)
            = Inr (b, d)"
        by simp
      from "1.IH" [OF Cons True r this]
      have "size b \<le> size_list size (base_features base_feat)" .
      with size_base_features [of base_feat] Cons show ?thesis by simp
    qed
  qed
qed

lemma get_direct_description_size:
  "get_direct_description f = Inr (b, d) \<Longrightarrow> size b < size f"
proof -
  assume a: "get_direct_description f = Inr (b, d)"
  then obtain dd where "direct_loop (base_features f) dd = Inr (b, d)"
    by (auto simp: get_direct_description_def split: sum.splits)
  then have "size b \<le> size_list size (base_features f)"
    by (rule direct_loop_size)
  with size_base_features [of f] show ?thesis by simp
qed

lemma input_columns_size:
  "input_columns f = Inr cols \<Longrightarrow> c \<in> set cols \<Longrightarrow> size c < size f"
  by (auto simp: input_columns_def split: if_splits option.splits
      dest!: size_in_base_features size_base_feature)

lemma unwrap_size: "unwrap f = Inr g \<Longrightarrow> size g \<le> size f"
  by (auto simp: unwrap_def split: if_splits option.splits dest!: size_base_feature)

lemma where_base_size:
  "unwrap f = Inr g \<Longrightarrow> where_f g = Some w \<Longrightarrow> base_features w = b # rest
     \<Longrightarrow> size b < size f"
proof -
  assume u: "unwrap f = Inr g" and w: "where_f g = Some w" and b: "base_features w = b # rest"
  from b have "size b < size w" by (intro size_in_base_features) simp
  also from w have "size w < size g" by (rule size_where_f)
  also from u have "size g \<le> size f" by (rule unwrap_size)
  finally show ?thesis .
qed

function generate_description ::
  "str_methods \<Rightarrow> feature \<Rightarrow> descriptions \<Rightarrow> templates \<Rightarrow> error + pyval" where
  "generate_description py feature feature_descriptions primitive_templates =
     (if has_description feature feature_descriptions then
        Inr (lookup_description feature feature_descriptions)
      else if kind feature = IdentityFeature then
        Inr (PyStr (''the '' @ quoted (get_name feature)))
      else if kind feature = DirectFeature then
        (case get_direct_description feature of
           Inl e \<Rightarrow> Inl e
         | Inr (base, direct_description) \<Rightarrow>
             (case generate_description py base feature_descriptions primitive_templates of
                Inl e \<Rightarrow> Inl e
              | Inr PyNone \<Rightarrow> Inl TypeError
              | Inr (PyStr direct_base) \<Rightarrow> Inr (PyStr (direct_base @ direct_description))))
      else
        (case input_columns feature of
           Inl e \<Rightarrow> Inl e
         | Inr cols \<Rightarrow>
        (case sequence (map (\<lambda>input_col.
                 generate_description py input_col feature_descriptions primitive_templates) cols) of
           Inl e \<Rightarrow> Inl e
         | Inr col_descriptions \<Rightarrow>
        (case pop_groupby feature col_descriptions of
           Inl e \<Rightarrow> Inl e
         | Inr (input_descriptions, groupby_description) \<Rightarrow>
        (case get_description (primitive feature) input_descriptions (slice_num feature)
                (template_override feature primitive_templates) of
           Inl e \<Rightarrow> Inl e
         | Inr primitive_description \<Rightarrow>
        (case unwrap feature of
           Inl e \<Rightarrow> Inl e
         | Inr feature' \<Rightarrow>
        (case groupby_phrase feature' feature_descriptions groupby_description of
           Inl e \<Rightarrow> Inl e
         | Inr groupby \<Rightarrow>
        (case entity_description py feature' of
           Inl e \<Rightarrow> Inl e
         | Inr entity_d \<Rightarrow>
        (case (case where_f feature' of
                 None \<Rightarrow> Inr []
               | Some w \<Rightarrow>
                   if has_description w feature_descriptions then
                     Inr (where_text (lookup_description w feature_descriptions)
                            (prim_value (primitive w)))
                   else
                     (case base_features w of
                        [] \<Rightarrow> Inl IndexError
                      | b # _ \<Rightarrow>
                          (case generate_description py b feature_descriptions primitive_templates of
                             Inl e \<Rightarrow> Inl e
                           | Inr where_col \<Rightarrow>
                               Inr (where_text where_col (prim_value (primitive w)))))) of
           Inl e \<Rightarrow> Inl e
         | Inr where_d \<Rightarrow>
             Inr (PyStr (join_template
                    [primitive_description, entity_d, where_d, groupby])))))))))))"
  by pat_completeness auto
termination
proof (relation "measure (\<lambda>(py, f, fd, pt). size f)")
  show "wf (measure (\<lambda>(py, f, fd, pt). size f))" by simp
qed (auto dest: get_direct_description_size input_columns_size where_base_size)

declare generate_description.simps [simp del]

section \<open>The metadata loader and the entry point\<close>

text \<open>
  What \<^verbatim>\<open>json.load\<close> returns for a metadata file: an object, of which only the two
  recognised keys are kept (each absent or a mapping), or any other JSON value. The
  file system is a function from a path to the outcome of \<^verbatim>\<open>open\<close> and
  \<^verbatim>\<open>json.load\<close>: the parsed document, or the exception raised.
\<close>

datatype json_metadata =
    JsonObject "descriptions option" "templates option"
  | JsonOther

type_synonym filesystem = "string \<Rightarrow> error + json_metadata"

definition get_default :: "('k \<rightharpoonup> 'v) option \<Rightarrow> ('k \<rightharpoonup> 'v)" where
  \<comment> \<open>\<^verbatim>\<open>json_metadata.get(key, {})\<close>, and \<^verbatim>\<open>if not d: d = {}\<close>\<close>
  "get_default d = (case d of None \<Rightarrow> Map.empty | Some m \<Rightarrow> m)"

definition parse_json_metadata :: "filesystem \<Rightarrow> string \<Rightarrow> error + (descriptions \<times> templates)" where
  "parse_json_metadata fs file =
     (case fs file of
        Inl e \<Rightarrow> Inl e
      | Inr JsonOther \<Rightarrow> Inl AttributeError
      | Inr (JsonObject fd pt) \<Rightarrow> Inr (get_default fd, get_default pt))"

definition merged_mappings ::
  "filesystem \<Rightarrow> descriptions option \<Rightarrow> templates option \<Rightarrow> string option
     \<Rightarrow> error + (descriptions \<times> templates)" where
  \<comment> \<open>the mappings \<^verbatim>\<open>describe_feature\<close> passes on: \<^verbatim>\<open>{**file, **caller}\<close> is \<open>file ++ caller\<close>\<close>
  "merged_mappings fs feature_descriptions primitive_templates metadata_file =
     (let fd = get_default feature_descriptions;
          pt = get_default primitive_templates
      in case metadata_file of
           None \<Rightarrow> Inr (fd, pt)
         | Some file \<Rightarrow>
             if file = [] then Inr (fd, pt)
             else (case parse_json_metadata fs file of
                     Inl e \<Rightarrow> Inl e
                   | Inr (file_fd, file_pt) \<Rightarrow> Inr (file_fd ++ fd, file_pt ++ pt)))"

definition capitalize :: "str_methods \<Rightarrow> pyval \<Rightarrow> error + string" where
  \<comment> \<open>\<^verbatim>\<open>description[:1].upper() + description[1:] + '.'\<close>\<close>
  "capitalize py description =
     (case description of
        PyNone \<Rightarrow> Inl TypeError
      | PyStr d \<Rightarrow> Inr (str_upper py (take 1 d) @ drop 1 d @ ''.''))"

definition describe_feature ::
  "str_methods \<Rightarrow> filesystem \<Rightarrow> feature \<Rightarrow> descriptions option \<Rightarrow> templates option
     \<Rightarrow> string option \<Rightarrow> error + string" where
  "describe_feature py fs feature feature_descriptions primitive_templates metadata_file =
     (case merged_mappings fs feature_descriptions primitive_templates metadata_file of
        Inl e \<Rightarrow> Inl e
      | Inr (fd, pt) \<Rightarrow>
          (case generate_description py feature fd pt of
             Inl e \<Rightarrow> Inl e
           | Inr description \<Rightarrow> capitalize py description))"

section \<open>The clauses of the general case\<close>

text \<open>
  The parts that the general case of \<^verbatim>\<open>generate_description\<close> joins, each as the
  source computes it: the inputs handed to the primitive (with the popped group-by
  phrase), and the where clause of the working feature.
\<close>

definition input_descriptions_of ::
  "str_methods \<Rightarrow> feature \<Rightarrow> descriptions \<Rightarrow> templates
     \<Rightarrow> error + (pyval list \<times> pyval option)" where
  "input_descriptions_of py feature feature_descriptions primitive_templates =
     (case input_columns feature of
        Inl e \<Rightarrow> Inl e
      | Inr cols \<Rightarrow>
          (case sequence (map (\<lambda>input_col.
                   generate_description py input_col feature_descriptions primitive_templates) cols) of
             Inl e \<Rightarrow> Inl e
           | Inr col_descriptions \<Rightarrow> pop_groupby feature col_descriptions))"

definition where_description ::
  "str_methods \<Rightarrow> feature \<Rightarrow> descriptions \<Rightarrow> templates \<Rightarrow> error + string" where
  "where_description py feature feature_descriptions primitive_templates =
     (case where_f feature of
        None \<Rightarrow> Inr []
      | Some w \<Rightarrow>
          if has_description w feature_descriptions then
            Inr (where_text (lookup_description w feature_descriptions) (prim_value (primitive w)))
          else
            (case base_features w of
               [] \<Rightarrow> Inl IndexError
             | b # _ \<Rightarrow>
                 (case generate_description py b feature_descriptions primitive_templates of
                    Inl e \<Rightarrow> Inl e
                  | Inr where_col \<Rightarrow> Inr (where_text where_col (prim_value (primitive w))))))"

section \<open>Example features\<close>

text \<open>
  Two entities, \<^verbatim>\<open>customers\<close> (index \<^verbatim>\<open>id\<close>) and \<^verbatim>\<open>transactions\<close> (index
  \<^verbatim>\<open>transaction_id\<close>), a primitive that renders \<^verbatim>\<open>the average of {}\<close>, and the
  features built over them.
\<close>

text \<open>
  The examples are written in ASCII. On ASCII text \<^verbatim>\<open>str.upper\<close> and
  \<^verbatim>\<open>str.lower\<close> exchange the letters of the two alphabets below and leave every
  other character as it is; \<open>ascii_str\<close> gives the examples these two methods.
\<close>

definition lowercase_letters :: string where
  "lowercase_letters = ''abcdefghijklmnopqrstuvwxyz''"

definition uppercase_letters :: string where
  "uppercase_letters = ''ABCDEFGHIJKLMNOPQRSTUVWXYZ''"


definition ascii_upper :: "string \<Rightarrow> string" where
  "ascii_upper s =
     map (\<lambda>c. case map_of (zip lowercase_letters uppercase_letters) c of
                 None \<Rightarrow> c | Some u \<Rightarrow> u) s"

definition ascii_lower :: "string \<Rightarrow> string" where
  "ascii_lower s =
     map (\<lambda>c. case map_of (zip uppercase_letters lowercase_letters) c of
                 None \<Rightarrow> c | Some l \<Rightarrow> l) s"

definition ascii_str :: str_methods where
  "ascii_str = \<lparr>str_upper = ascii_upper, str_lower = ascii_lower\<rparr>"

definition customers :: entity_rec where
  "customers = \<lparr>entity_ident = ''customers'', entity_index = ''id'',
                 index_feature_key = 10, index_feature_unique_name = ''customers: id''\<rparr>"

definition transactions :: entity_rec where
  "transactions = \<lparr>entity_ident = ''transactions'', entity_index = ''transaction_id'',
                    index_feature_key = 20,
                    index_feature_unique_name = ''transactions: transaction_id''\<rparr>"

definition no_primitive :: primitive where
  "no_primitive = Primitive 0 [] [] (\<lambda>ins sl tmpl. Inl PrimitiveError)"

definition mean_primitive :: primitive where
  "mean_primitive = Primitive 1 ''mean'' []
     (\<lambda>ins sl tmpl. case ins of [] \<Rightarrow> Inl IndexError
                      | x # _ \<Rightarrow> Inr (''the average of '' @ format_val x))"

definition equal_scalar :: primitive where
  "equal_scalar = Primitive 2 ''equal_scalar'' ''5''
     (\<lambda>ins sl tmpl. case ins of [] \<Rightarrow> Inl IndexError
                      | x # _ \<Rightarrow> Inr (format_val x @ '' = 5''))"

definition f_amount :: feature where
  "f_amount = Feature 21 IdentityFeature ''transactions: amount'' ''amount'' [] no_primitive
     transactions [] None None None 0"

definition f_age :: feature where
  "f_age = Feature 11 IdentityFeature ''customers: age'' ''age'' [] no_primitive
     customers [] None None None 0"

definition to_customers :: relationship where
  "to_customers = \<lparr>parent_entity_id = ''customers'', child_entity_id = ''transactions''\<rparr>"

definition f_mean :: feature where
  "f_mean = Feature 12 AggregationFeature ''customers: MEAN(transactions.amount)''
     ''MEAN(transactions.amount)'' [f_amount] mean_primitive customers [to_customers]
     None None None 0"

definition f_direct :: feature where
  "f_direct = Feature 22 DirectFeature ''transactions: customers.age'' ''customers.age''
     [f_age] no_primitive transactions [to_customers] None None None 0"

definition no_files :: filesystem where
  "no_files = (\<lambda>file. Inl FileNotFoundError)"


definition empty_by_key :: descriptions where
  "empty_by_key = [ObjKey 11 \<mapsto> []]"

definition file_descriptions :: descriptions where
  "file_descriptions = [NameKey ''customers: age'' \<mapsto> ''the age in the file'',
                        NameKey ''customers: id'' \<mapsto> ''the customer'']"

definition caller_descriptions :: descriptions where
  "caller_descriptions = [NameKey ''customers: age'' \<mapsto> ''the age of the customer'']"

definition file_templates :: templates where
  "file_templates = [NameKey ''mean'' \<mapsto> TemplateStr ''the file mean of {}'']"

definition caller_templates :: templates where
  "caller_templates = [NameKey ''mean'' \<mapsto> TemplateStr ''the caller mean of {}'']"

definition meta_files :: filesystem where
  "meta_files = (\<lambda>file. if file = ''meta.json''
                   then Inr (JsonObject (Some file_descriptions) (Some file_templates))
                   else Inl FileNotFoundError)"

definition f_equal :: feature where
  "f_equal = Feature 23 TransformFeature ''transactions: amount = 5'' ''amount = 5''
     [f_amount] equal_scalar transactions [] None None None 0"

definition f_mean_where :: feature where
  "f_mean_where = Feature 13 AggregationFeature
     ''customers: MEAN(transactions.amount WHERE amount = 5)''
     ''MEAN(transactions.amount WHERE amount = 5)'' [f_amount] mean_primitive customers
     [to_customers] (Some f_equal) None None 0"

definition f_mean_window :: feature where
  "f_mean_window = Feature 14 AggregationFeature
     ''customers: MEAN(transactions.amount, Last 3 Days)''
     ''MEAN(transactions.amount, Last 3 Days)'' [f_amount] mean_primitive customers
     [to_customers] None (Some ''3 Days'') None 0"

definition f_slice :: feature where
  "f_slice = Feature 15 FeatureOutputSlice ''customers: MEAN(transactions.amount)[0]''
     ''MEAN(transactions.amount)[0]'' [f_mean] mean_primitive customers [] None None
     (Some f_mean) 0"

definition log_entity :: entity_rec where
  "log_entity = \<lparr>entity_ident = ''log'', entity_index = ''log_id'',
                  index_feature_key = 30, index_feature_unique_name = ''log: log_id''\<rparr>"

definition to_transactions :: relationship where
  "to_transactions = \<lparr>parent_entity_id = ''transactions'', child_entity_id = ''log''\<rparr>"

definition f_direct2 :: feature where
  "f_direct2 = Feature 31 DirectFeature ''log: transactions.customers.age''
     ''transactions.customers.age'' [f_direct] no_primitive log_entity [to_transactions]
     None None None 0"

definition empty_index_override :: descriptions where
  "empty_index_override = [ObjKey 10 \<mapsto> []]"


section \<open>The branches of the generator\<close>

text \<open>One equation for each of the four rules of \<^verbatim>\<open>generate_description\<close>.\<close>

lemma generate_description_override:
  "has_description f fd \<Longrightarrow> generate_description py f fd pt = Inr (lookup_description f fd)"
  by (subst generate_description.simps) simp

lemma generate_description_identity:
  "\<not> has_description f fd \<Longrightarrow> kind f = IdentityFeature
     \<Longrightarrow> generate_description py f fd pt = Inr (PyStr (''the '' @ quoted (get_name f)))"
  by (subst generate_description.simps) simp

lemma generate_description_direct:
  "\<not> has_description f fd \<Longrightarrow> kind f = DirectFeature
     \<Longrightarrow> generate_description py f fd pt =
         (case get_direct_description f of
            Inl e \<Rightarrow> Inl e
          | Inr (base, direct_description) \<Rightarrow>
              (case generate_description py base fd pt of
                 Inl e \<Rightarrow> Inl e
               | Inr PyNone \<Rightarrow> Inl TypeError
               | Inr (PyStr direct_base) \<Rightarrow> Inr (PyStr (direct_base @ direct_description))))"
  by (subst generate_description.simps) simp

lemma generate_description_general:
  "\<not> has_description f fd \<Longrightarrow> kind f \<noteq> IdentityFeature \<Longrightarrow> kind f \<noteq> DirectFeature
     \<Longrightarrow> generate_description py f fd pt =
        (case input_descriptions_of py f fd pt of
           Inl e \<Rightarrow> Inl e
         | Inr (input_descriptions, groupby_description) \<Rightarrow>
        (case get_description (primitive f) input_descriptions (slice_num f)
                (template_override f pt) of
           Inl e \<Rightarrow> Inl e
         | Inr primitive_description \<Rightarrow>
        (case unwrap f of
           Inl e \<Rightarrow> Inl e
         | Inr g \<Rightarrow>
        (case groupby_phrase g fd groupby_description of
           Inl e \<Rightarrow> Inl e
         | Inr groupby \<Rightarrow>
        (case entity_description py g of
           Inl e \<Rightarrow> Inl e
         | Inr entity_d \<Rightarrow>
        (case where_description py g fd pt of
           Inl e \<Rightarrow> Inl e
         | Inr where_d \<Rightarrow>
             Inr (PyStr (join_template
                    [primitive_description, entity_d, where_d, groupby]))))))))"
  by (subst generate_description.simps)
    (simp add: input_descriptions_of_def where_description_def split: sum.splits)

subsection \<open>The example features, evaluated\<close>

lemma f_age_eval:
  "generate_description ascii_str f_age Map.empty Map.empty = Inr (PyStr (''the '' @ quoted ''age''))"
  by (simp add: generate_description_identity has_description_def dict_contains_def f_age_def)

section \<open>The sentence returned by the entry point\<close>




section \<open>Failures of the metadata file\<close>

text \<open>
  Claim C8. When a metadata path is given (a non-empty string, which is what the test
  \<^verbatim>\<open>if metadata_file\<close> accepts) and reading or parsing the file raises, then
  \<^verbatim>\<open>describe_feature\<close> raises that same exception, whatever the feature and the
  mappings are: no description is returned.
\<close>

theorem metadata_error_propagates:
  "file \<noteq> [] \<Longrightarrow> fs file = Inl e
     \<Longrightarrow> describe_feature py fs f fd pt (Some file) = Inl e"
  by (simp add: describe_feature_def merged_mappings_def parse_json_metadata_def)

theorem metadata_error_propagates_witness:
  "''meta.json'' \<noteq> [] \<and> no_files ''meta.json'' = Inl FileNotFoundError
   \<and> describe_feature ascii_str no_files f_mean None None (Some ''meta.json'') = Inl FileNotFoundError"
  using metadata_error_propagates [of "''meta.json''" no_files FileNotFoundError
      ascii_str f_mean None None]
  by (simp add: no_files_def)

section \<open>Merging the metadata file with the caller's mappings\<close>

text \<open>
  Claim C3. With a metadata file that loads, the mappings used for rendering are the
  file's mappings overridden by the caller's: on every key present in both, the merged
  mapping holds the caller's value, for the descriptions and for the templates, and the
  description is generated from these merged mappings.
\<close>

theorem merged_mappings_caller_wins:
  assumes "file \<noteq> []"
    and "parse_json_metadata fs file = Inr (file_fd, file_pt)"
  shows "merged_mappings fs (Some fd) (Some pt) (Some file) = Inr (file_fd ++ fd, file_pt ++ pt)
       \<and> (\<forall>k. k \<in> dom file_fd \<and> k \<in> dom fd \<longrightarrow> (file_fd ++ fd) k = fd k)
       \<and> (\<forall>k. k \<in> dom file_pt \<and> k \<in> dom pt \<longrightarrow> (file_pt ++ pt) k = pt k)
       \<and> describe_feature py fs f (Some fd) (Some pt) (Some file) =
           (case generate_description py f (file_fd ++ fd) (file_pt ++ pt) of
              Inl e \<Rightarrow> Inl e
            | Inr description \<Rightarrow> capitalize py description)"
proof -
  have m: "merged_mappings fs (Some fd) (Some pt) (Some file) = Inr (file_fd ++ fd, file_pt ++ pt)"
    using assms by (simp add: merged_mappings_def get_default_def)
  have a: "\<forall>k. k \<in> dom file_fd \<and> k \<in> dom fd \<longrightarrow> (file_fd ++ fd) k = fd k"
    by (auto simp: map_add_def)
  have b: "\<forall>k. k \<in> dom file_pt \<and> k \<in> dom pt \<longrightarrow> (file_pt ++ pt) k = pt k"
    by (auto simp: map_add_def)
  have d: "describe_feature py fs f (Some fd) (Some pt) (Some file) =
           (case generate_description py f (file_fd ++ fd) (file_pt ++ pt) of
              Inl e \<Rightarrow> Inl e
            | Inr description \<Rightarrow> capitalize py description)"
    by (simp add: describe_feature_def m)
  from m a b d show ?thesis by blast
qed

text \<open>A metadata file and a caller that both describe \<^verbatim>\<open>customers: age\<close>.\<close>

lemma meta_parse:
  "parse_json_metadata meta_files ''meta.json'' = Inr (file_descriptions, file_templates)"
  by (simp add: parse_json_metadata_def meta_files_def get_default_def)

theorem merged_mappings_caller_wins_witness:
  "(file_descriptions ++ caller_descriptions) (NameKey ''customers: age'')
     = Some ''the age of the customer''
   \<and> (file_templates ++ caller_templates) (NameKey ''mean'')
     = Some (TemplateStr ''the caller mean of {}'')
   \<and> describe_feature ascii_str meta_files f_age (Some caller_descriptions) (Some caller_templates)
       (Some ''meta.json'') = Inr ''The age of the customer.''"
proof -
  have ne: "''meta.json'' \<noteq> []" by simp
  note w = merged_mappings_caller_wins [OF ne meta_parse, where fd = caller_descriptions
      and pt = caller_templates and f = f_age and py = ascii_str]
  have k1: "NameKey ''customers: age'' \<in> dom file_descriptions
            \<and> NameKey ''customers: age'' \<in> dom caller_descriptions"
    by (simp add: file_descriptions_def caller_descriptions_def)
  have k2: "NameKey ''mean'' \<in> dom file_templates \<and> NameKey ''mean'' \<in> dom caller_templates"
    by (simp add: file_templates_def caller_templates_def)
  have v1: "(file_descriptions ++ caller_descriptions) (NameKey ''customers: age'')
              = Some ''the age of the customer''"
    using w k1 by (simp add: caller_descriptions_def)
  have v2: "(file_templates ++ caller_templates) (NameKey ''mean'')
              = Some (TemplateStr ''the caller mean of {}'')"
    using w k2 by (simp add: caller_templates_def)
  have v0: "(file_descriptions ++ caller_descriptions) (ObjKey 11) = None"
    by (simp add: file_descriptions_def caller_descriptions_def map_add_def)
  have h: "has_description f_age (file_descriptions ++ caller_descriptions)"
    using v1 by (simp add: has_description_def dict_contains_def f_age_def)
  have g: "generate_description ascii_str f_age (file_descriptions ++ caller_descriptions)
             (file_templates ++ caller_templates) = Inr (PyStr ''the age of the customer'')"
    unfolding generate_description_override [OF h]
    by (simp add: lookup_description_def py_or_def dict_get_def truthy_def f_age_def v0 v1)
  have "describe_feature ascii_str meta_files f_age (Some caller_descriptions) (Some caller_templates)
       (Some ''meta.json'') = Inr ''The age of the customer.''"
    using w g by (simp add: capitalize_def ascii_str_def ascii_upper_def
        lowercase_letters_def uppercase_letters_def)
  with v1 v2 show ?thesis by simp
qed

lemma f_amount_eval:
  "generate_description ascii_str f_amount Map.empty Map.empty = Inr (PyStr (''the '' @ quoted ''amount''))"
  by (simp add: generate_description_identity has_description_def dict_contains_def f_amount_def)

section \<open>The general case\<close>

text \<open>
  Claim C4. For a feature that has no override and is neither an identity nor a direct
  feature, the phrase returned is the primitive fragment, the entity clause, the where
  clause and the group-by clause, in this order, with the empty ones left out and the
  others joined by single spaces.
\<close>

theorem general_case_joins_clauses:
  assumes "\<not> has_description f fd"
    and "kind f \<noteq> IdentityFeature" and "kind f \<noteq> DirectFeature"
    and "input_descriptions_of py f fd pt = Inr (input_descriptions, groupby_description)"
    and "get_description (primitive f) input_descriptions (slice_num f)
           (template_override f pt) = Inr primitive_description"
    and "unwrap f = Inr g"
    and "groupby_phrase g fd groupby_description = Inr groupby"
    and "entity_description py g = Inr entity_d"
    and "where_description py g fd pt = Inr where_d"
  shows "generate_description py f fd pt =
           Inr (PyStr (join '' '' (filter (\<lambda>phrase. phrase \<noteq> [])
                  [primitive_description, entity_d, where_d, groupby])))"
  using assms by (simp add: generate_description_general join_template_def)

text \<open>The four clauses of an aggregation with a where clause, and their join.\<close>

lemma f_mean_where_inputs:
  "input_descriptions_of ascii_str f_mean_where Map.empty Map.empty
     = Inr ([PyStr (''the '' @ quoted ''amount'')], None)"
  by (simp add: input_descriptions_of_def input_columns_def pop_groupby_def f_mean_where_def
      f_amount_eval)

lemma f_mean_where_primitive:
  "get_description (primitive f_mean_where) [PyStr (''the '' @ quoted ''amount'')]
     (slice_num f_mean_where) (template_override f_mean_where Map.empty)
   = Inr (''the average of the '' @ quoted ''amount'')"
  by (simp add: f_mean_where_def mean_primitive_def format_val_def)

lemma f_mean_where_groupby:
  "groupby_phrase f_mean_where Map.empty None
     = Inr (''for each '' @ quoted ''id'' @ '' in '' @ quoted ''customers'')"
  by (simp add: groupby_phrase_def get_aggregation_groupby_def f_mean_where_def customers_def
      dict_contains_def)

lemma f_mean_where_entity:
  "entity_description ascii_str f_mean_where = Inr (''of all instances of '' @ quoted ''transactions'')"
  by (simp add: entity_description_def last_hop_def f_mean_where_def to_customers_def)

lemma f_mean_where_where:
  "where_description ascii_str f_mean_where Map.empty Map.empty
     = Inr (''where the '' @ quoted ''amount'' @ '' is 5'')"
  by (simp add: where_description_def f_mean_where_def f_equal_def has_description_def
      dict_contains_def f_amount_eval where_text_def format_val_def equal_scalar_def)

theorem general_case_joins_clauses_witness:
  "generate_description ascii_str f_mean_where Map.empty Map.empty =
     Inr (PyStr (''the average of the '' @ quoted ''amount'' @ '' of all instances of ''
            @ quoted ''transactions'' @ '' where the '' @ quoted ''amount''
            @ '' is 5 for each '' @ quoted ''id'' @ '' in '' @ quoted ''customers''))"
proof -
  have h: "\<not> has_description f_mean_where Map.empty"
    by (simp add: has_description_def dict_contains_def)
  have k1: "kind f_mean_where \<noteq> IdentityFeature" by (simp add: f_mean_where_def)
  have k2: "kind f_mean_where \<noteq> DirectFeature" by (simp add: f_mean_where_def)
  have u: "unwrap f_mean_where = Inr f_mean_where"
    by (simp add: unwrap_def f_mean_where_def)
  from general_case_joins_clauses [OF h k1 k2 f_mean_where_inputs f_mean_where_primitive u
      f_mean_where_groupby f_mean_where_entity f_mean_where_where]
  show ?thesis by (simp add: quoted_def)
qed

section \<open>The entity clause\<close>

text \<open>
  Claim C5, as the code has it. In the general case the entity clause of the description
  is computed from the working feature: the feature itself, or the wrapped feature when
  the feature is a sliced output (for an aggregation, the feature itself). When the
  working feature is an aggregation with a use-previous window, the clause is
  \<^verbatim>\<open>of the previous\<close>, the lower-cased window name, \<^verbatim>\<open>of\<close> and the double-quoted
  child entity of the last hop of its relationship path; when it is an aggregation
  without a window, the clause is \<^verbatim>\<open>of all instances of\<close> and the same quoted child
  entity; when the working feature is not an aggregation, the clause is empty. The
  description is stated in full, with the clause in its place between the primitive
  fragment and the where clause.
\<close>

theorem entity_clause_of_working_feature:
  assumes "\<not> has_description f fd"
    and "kind f \<noteq> IdentityFeature" and "kind f \<noteq> DirectFeature"
    and "input_descriptions_of py f fd pt = Inr (input_descriptions, groupby_description)"
    and "get_description (primitive f) input_descriptions (slice_num f)
           (template_override f pt) = Inr primitive_description"
    and "unwrap f = Inr g"
    and "groupby_phrase g fd groupby_description = Inr groupby"
    and "where_description py g fd pt = Inr where_d"
  shows "(kind f = AggregationFeature \<longrightarrow> g = f)
       \<and> (kind f = FeatureOutputSlice \<longrightarrow> base_feature f = Some g)
       \<and> (kind g = AggregationFeature \<and> relationship_path g \<noteq> []
            \<and> use_previous g = Some window
          \<longrightarrow> generate_description py f fd pt =
                Inr (PyStr (join '' '' (filter (\<lambda>phrase. phrase \<noteq> [])
                  [primitive_description,
                   ''of the previous '' @ str_lower py window @ '' of ''
                     @ [dq] @ child_entity_id (last (relationship_path g)) @ [dq],
                   where_d, groupby]))))
       \<and> (kind g = AggregationFeature \<and> relationship_path g \<noteq> []
            \<and> use_previous g = None
          \<longrightarrow> generate_description py f fd pt =
                Inr (PyStr (join '' '' (filter (\<lambda>phrase. phrase \<noteq> [])
                  [primitive_description,
                   ''of all instances of ''
                     @ [dq] @ child_entity_id (last (relationship_path g)) @ [dq],
                   where_d, groupby]))))
       \<and> (kind g \<noteq> AggregationFeature
          \<longrightarrow> generate_description py f fd pt =
                Inr (PyStr (join '' '' (filter (\<lambda>phrase. phrase \<noteq> [])
                  [primitive_description, [], where_d, groupby]))))"
proof -
  have a: "kind f = AggregationFeature \<longrightarrow> g = f"
    using assms(6) by (auto simp: unwrap_def split: if_splits)
  have b: "kind f = FeatureOutputSlice \<longrightarrow> base_feature f = Some g"
    using assms(6) by (auto simp: unwrap_def split: if_splits option.splits)
  have gen: "generate_description py f fd pt =
      (case entity_description py g of
         Inl e \<Rightarrow> Inl e
       | Inr entity_d \<Rightarrow>
           Inr (PyStr (join_template [primitive_description, entity_d, where_d, groupby])))"
    using assms by (simp add: generate_description_general split: sum.splits)
  have w: "kind g = AggregationFeature \<and> relationship_path g \<noteq> []
            \<and> use_previous g = Some window
          \<longrightarrow> generate_description py f fd pt =
                Inr (PyStr (join '' '' (filter (\<lambda>phrase. phrase \<noteq> [])
                  [primitive_description,
                   ''of the previous '' @ str_lower py window @ '' of ''
                     @ [dq] @ child_entity_id (last (relationship_path g)) @ [dq],
                   where_d, groupby])))"
    by (simp add: gen entity_description_def last_hop_def quoted_def join_template_def)
  have n: "kind g = AggregationFeature \<and> relationship_path g \<noteq> []
            \<and> use_previous g = None
          \<longrightarrow> generate_description py f fd pt =
                Inr (PyStr (join '' '' (filter (\<lambda>phrase. phrase \<noteq> [])
                  [primitive_description,
                   ''of all instances of ''
                     @ [dq] @ child_entity_id (last (relationship_path g)) @ [dq],
                   where_d, groupby])))"
    by (simp add: gen entity_description_def last_hop_def quoted_def join_template_def)
  have o: "kind g \<noteq> AggregationFeature
          \<longrightarrow> generate_description py f fd pt =
                Inr (PyStr (join '' '' (filter (\<lambda>phrase. phrase \<noteq> [])
                  [primitive_description, [], where_d, groupby])))"
    by (simp add: gen entity_description_def join_template_def)
  from a b w n o show ?thesis by blast
qed

text \<open>An aggregation over the last three days.\<close>

lemma f_mean_window_inputs:
  "input_descriptions_of ascii_str f_mean_window Map.empty Map.empty
     = Inr ([PyStr (''the '' @ quoted ''amount'')], None)"
  by (simp add: input_descriptions_of_def input_columns_def pop_groupby_def f_mean_window_def
      f_amount_eval)

lemma f_mean_window_primitive:
  "get_description (primitive f_mean_window) [PyStr (''the '' @ quoted ''amount'')]
     (slice_num f_mean_window) (template_override f_mean_window Map.empty)
   = Inr (''the average of the '' @ quoted ''amount'')"
  by (simp add: f_mean_window_def mean_primitive_def format_val_def)

lemma f_mean_window_groupby:
  "groupby_phrase f_mean_window Map.empty None
     = Inr (''for each '' @ quoted ''id'' @ '' in '' @ quoted ''customers'')"
  by (simp add: groupby_phrase_def get_aggregation_groupby_def f_mean_window_def customers_def
      dict_contains_def)

lemma f_mean_window_where:
  "where_description ascii_str f_mean_window Map.empty Map.empty = Inr []"
  by (simp add: where_description_def f_mean_window_def)

theorem entity_clause_of_working_feature_witness:
  "generate_description ascii_str f_mean_window Map.empty Map.empty =
     Inr (PyStr (''the average of the '' @ quoted ''amount''
            @ '' of the previous 3 days of '' @ quoted ''transactions''
            @ '' for each '' @ quoted ''id'' @ '' in '' @ quoted ''customers''))"
proof -
  have h: "\<not> has_description f_mean_window Map.empty"
    by (simp add: has_description_def dict_contains_def)
  have k1: "kind f_mean_window \<noteq> IdentityFeature" by (simp add: f_mean_window_def)
  have k2: "kind f_mean_window \<noteq> DirectFeature" by (simp add: f_mean_window_def)
  have u: "unwrap f_mean_window = Inr f_mean_window"
    by (simp add: unwrap_def f_mean_window_def)
  have a: "kind f_mean_window = AggregationFeature \<and> relationship_path f_mean_window \<noteq> []
           \<and> use_previous f_mean_window = Some ''3 Days''
           \<and> child_entity_id (last (relationship_path f_mean_window)) = ''transactions''"
    by (simp add: f_mean_window_def to_customers_def)
  have l: "str_lower ascii_str ''3 Days'' = ''3 days''"
    by (simp add: ascii_str_def ascii_lower_def lowercase_letters_def uppercase_letters_def)
  from entity_clause_of_working_feature [OF h k1 k2 f_mean_window_inputs
      f_mean_window_primitive u f_mean_window_groupby f_mean_window_where,
      where window = "''3 Days''"] a
  show ?thesis by (simp add: l quoted_def)
qed

text \<open>
  Claim C5 as stated fails for a sliced output over an aggregation: the sliced output is
  not an aggregation, yet its description has the entity clause of the aggregation it
  wraps, \<^verbatim>\<open>of all instances of "transactions"\<close>.
\<close>

theorem sliced_aggregation_entity_clause_counterexample:
  "kind f_slice \<noteq> AggregationFeature
   \<and> generate_description ascii_str f_slice Map.empty Map.empty =
       Inr (PyStr (''the average of the '' @ quoted ''amount''
              @ '' of all instances of '' @ quoted ''transactions''
              @ '' for each '' @ quoted ''id'' @ '' in '' @ quoted ''customers''))"
proof -
  have h: "\<not> has_description f_slice Map.empty"
    by (simp add: has_description_def dict_contains_def)
  have k: "kind f_slice = FeatureOutputSlice" by (simp add: f_slice_def)
  have k1: "kind f_slice \<noteq> IdentityFeature" by (simp add: k)
  have k2: "kind f_slice \<noteq> DirectFeature" by (simp add: k)
  have i: "input_descriptions_of ascii_str f_slice Map.empty Map.empty
             = Inr ([PyStr (''the '' @ quoted ''amount'')], None)"
    by (simp add: input_descriptions_of_def input_columns_def pop_groupby_def f_slice_def
        f_mean_def f_amount_eval)
  have p: "get_description (primitive f_slice) [PyStr (''the '' @ quoted ''amount'')]
             (slice_num f_slice) (template_override f_slice Map.empty)
           = Inr (''the average of the '' @ quoted ''amount'')"
    by (simp add: f_slice_def mean_primitive_def format_val_def)
  have u: "unwrap f_slice = Inr f_mean" by (simp add: unwrap_def f_slice_def)
  have g: "groupby_phrase f_mean Map.empty None
             = Inr (''for each '' @ quoted ''id'' @ '' in '' @ quoted ''customers'')"
    by (simp add: groupby_phrase_def get_aggregation_groupby_def f_mean_def customers_def
        dict_contains_def)
  have e: "entity_description ascii_str f_mean
             = Inr (''of all instances of '' @ quoted ''transactions'')"
    by (simp add: entity_description_def last_hop_def f_mean_def to_customers_def)
  have w: "where_description ascii_str f_mean Map.empty Map.empty = Inr []"
    by (simp add: where_description_def f_mean_def)
  have "generate_description ascii_str f_slice Map.empty Map.empty =
       Inr (PyStr (join_template
              [''the average of the '' @ quoted ''amount'',
               ''of all instances of '' @ quoted ''transactions'', [],
               ''for each '' @ quoted ''id'' @ '' in '' @ quoted ''customers'']))"
    by (simp only: generate_description_general [OF h k1 k2] i p u g e w sum.case prod.case)
  with k show ?thesis by (simp add: join_template_def quoted_def)
qed

section \<open>Direct features\<close>

lemma direct_loop_not_direct:
  "direct_loop bfs dd = Inr (b, d) \<Longrightarrow> kind b \<noteq> DirectFeature"
proof (induction bfs dd rule: direct_loop.induct)
  case (1 bfs dd)
  show ?case
  proof (cases bfs)
    case Nil
    with "1.prems" show ?thesis by simp
  next
    case (Cons base_feat rest)
    show ?thesis
    proof (cases "kind base_feat = DirectFeature")
      case False
      with "1.prems" Cons show ?thesis by simp
    next
      case True
      with "1.prems" Cons obtain r where r: "last_hop base_feat = Inr r"
        by (cases "last_hop base_feat") auto
      with "1.prems" Cons True
      have "direct_loop (base_features base_feat)
              (('' the instance of '' @ quoted (parent_entity_id r) @ '' associated with'') @ dd)
            = Inr (b, d)"
        by simp
      from "1.IH" [OF Cons True r this] show ?thesis .
    qed
  qed
qed

lemma direct_loop_stop:
  "kind b \<noteq> DirectFeature \<Longrightarrow> direct_loop (b # rest) dd = Inr (b, '' of'' @ dd)"
  by simp

lemma direct_loop_step:
  "kind b = DirectFeature \<Longrightarrow> relationship_path b \<noteq> []
     \<Longrightarrow> direct_loop (b # rest) dd =
         direct_loop (base_features b)
           (('' the instance of '' @ quoted (parent_entity_id (last (relationship_path b)))
               @ '' associated with'') @ dd)"
  by (simp add: last_hop_def)

declare direct_loop.simps [simp del]

lemma direct_loop_innermost:
  "(\<exists>d. direct_loop bfs dd = Inr (b, d)) = (innermost_base bfs = Some b)"
proof (induction bfs dd rule: direct_loop.induct)
  case (1 bfs dd)
  show ?case
  proof (cases bfs)
    case Nil
    then show ?thesis
      by (simp add: direct_loop.simps [of "[]"] innermost_base.simps [of "[]"])
  next
    case (Cons base_feat rest)
    show ?thesis
    proof (cases "kind base_feat = DirectFeature")
      case False
      with Cons show ?thesis
        by (auto simp: direct_loop_stop innermost_base.simps [of "base_feat # rest"])
    next
      case True
      show ?thesis
      proof (cases "relationship_path base_feat = []")
        case e: True
        with Cons True show ?thesis
          by (simp add: direct_loop.simps [of "base_feat # rest"]
              innermost_base.simps [of "base_feat # rest"] last_hop_def)
      next
        case ne: False
        then have r: "last_hop base_feat = Inr (last (relationship_path base_feat))"
          by (simp add: last_hop_def)
        from "1.IH" [OF Cons True r]
        have "(\<exists>d. direct_loop (base_features base_feat)
                 (('' the instance of ''
                     @ quoted (parent_entity_id (last (relationship_path base_feat)))
                     @ '' associated with'') @ dd) = Inr (b, d))
              = (innermost_base (base_features base_feat) = Some b)" .
        with Cons True ne show ?thesis
          by (simp add: direct_loop_step innermost_base.simps [of "base_feat # rest"])
      qed
    qed
  qed
qed

lemma get_direct_description_innermost:
  "relationship_path f \<noteq> [] \<Longrightarrow>
     (\<exists>d. get_direct_description f = Inr (b, d)) = (innermost_base (base_features f) = Some b)"
  by (simp add: get_direct_description_def last_hop_def direct_loop_innermost)

lemma get_direct_description_innermost':
  "get_direct_description f = Inr (b, d) \<Longrightarrow> innermost_base (base_features f) = Some b"
proof -
  assume a: "get_direct_description f = Inr (b, d)"
  then have "relationship_path f \<noteq> []"
    by (auto simp: get_direct_description_def last_hop_def split: if_splits)
  from get_direct_description_innermost [OF this, of b] a show ?thesis by blast
qed

text \<open>
  Claim C6. What the unwinder returns is the innermost non-direct base feature, and it
  returns it whenever there is one and the feature has a relationship path. For a
  single hop the phrase is \<^verbatim>\<open>of the instance of\<close> the quoted parent entity,
  \<^verbatim>\<open>associated with this instance of\<close> the quoted entity of the starting feature.
  For a chain of two direct features the parent entity of the inner hop comes first,
  then the parent entity of the starting feature, then the entity of the starting
  feature. The description of a direct feature is the description of the returned base
  feature followed by this phrase.
\<close>

theorem direct_description_unwinds:
  "(get_direct_description f = Inr (b, d)
       \<longrightarrow> kind b \<noteq> DirectFeature \<and> innermost_base (base_features f) = Some b)
   \<and> (relationship_path f \<noteq> [] \<and> innermost_base (base_features f) = Some b
       \<longrightarrow> (\<exists>d. get_direct_description f = Inr (b, d)))
   \<and> (relationship_path f \<noteq> [] \<and> base_features f = b1 # rest \<and> kind b1 \<noteq> DirectFeature
       \<longrightarrow> get_direct_description f =
             Inr (b1, '' of the instance of ''
                        @ [dq] @ parent_entity_id (last (relationship_path f)) @ [dq]
                        @ '' associated with this instance of ''
                        @ [dq] @ entity_ident (entity f) @ [dq]))
   \<and> (relationship_path f \<noteq> [] \<and> base_features f = b1 # rest \<and> kind b1 = DirectFeature
        \<and> relationship_path b1 \<noteq> [] \<and> base_features b1 = b2 # rest2
        \<and> kind b2 \<noteq> DirectFeature
       \<longrightarrow> get_direct_description f =
             Inr (b2, '' of the instance of ''
                        @ [dq] @ parent_entity_id (last (relationship_path b1)) @ [dq]
                        @ '' associated with the instance of ''
                        @ [dq] @ parent_entity_id (last (relationship_path f)) @ [dq]
                        @ '' associated with this instance of ''
                        @ [dq] @ entity_ident (entity f) @ [dq]))
   \<and> (kind f = DirectFeature \<and> \<not> has_description f fd
        \<and> get_direct_description f = Inr (b, d)
        \<and> generate_description py b fd pt = Inr (PyStr s)
       \<longrightarrow> generate_description py f fd pt = Inr (PyStr (s @ d)))"
proof -
  have a: "get_direct_description f = Inr (b, d)
       \<longrightarrow> kind b \<noteq> DirectFeature \<and> innermost_base (base_features f) = Some b"
  proof
    assume g: "get_direct_description f = Inr (b, d)"
    then obtain dd where "direct_loop (base_features f) dd = Inr (b, d)"
      by (auto simp: get_direct_description_def split: sum.splits)
    then have "kind b \<noteq> DirectFeature" by (rule direct_loop_not_direct)
    moreover from g have "innermost_base (base_features f) = Some b"
      by (rule get_direct_description_innermost')
    ultimately show "kind b \<noteq> DirectFeature \<and> innermost_base (base_features f) = Some b"
      by simp
  qed
  have tot: "relationship_path f \<noteq> [] \<and> innermost_base (base_features f) = Some b
       \<longrightarrow> (\<exists>d. get_direct_description f = Inr (b, d))"
    by (simp add: get_direct_description_innermost)
  have one: "relationship_path f \<noteq> [] \<and> base_features f = b1 # rest \<and> kind b1 \<noteq> DirectFeature
       \<longrightarrow> get_direct_description f =
             Inr (b1, '' of the instance of ''
                        @ [dq] @ parent_entity_id (last (relationship_path f)) @ [dq]
                        @ '' associated with this instance of ''
                        @ [dq] @ entity_ident (entity f) @ [dq])"
    by (simp add: get_direct_description_def last_hop_def direct_loop_stop quoted_def)
  have two: "relationship_path f \<noteq> [] \<and> base_features f = b1 # rest \<and> kind b1 = DirectFeature
        \<and> relationship_path b1 \<noteq> [] \<and> base_features b1 = b2 # rest2
        \<and> kind b2 \<noteq> DirectFeature
       \<longrightarrow> get_direct_description f =
             Inr (b2, '' of the instance of ''
                        @ [dq] @ parent_entity_id (last (relationship_path b1)) @ [dq]
                        @ '' associated with the instance of ''
                        @ [dq] @ parent_entity_id (last (relationship_path f)) @ [dq]
                        @ '' associated with this instance of ''
                        @ [dq] @ entity_ident (entity f) @ [dq])"
    by (simp add: get_direct_description_def last_hop_def direct_loop_step direct_loop_stop
        quoted_def)
  have fin: "kind f = DirectFeature \<and> \<not> has_description f fd
        \<and> get_direct_description f = Inr (b, d)
        \<and> generate_description py b fd pt = Inr (PyStr s)
       \<longrightarrow> generate_description py f fd pt = Inr (PyStr (s @ d))"
    by (simp add: generate_description_direct)
  from a tot one two fin show ?thesis by blast
qed

text \<open>A direct feature over one hop, and one over two hops.\<close>

lemma f_direct_unwind:
  "get_direct_description f_direct =
     Inr (f_age, '' of the instance of '' @ [dq] @ ''customers'' @ [dq]
                 @ '' associated with this instance of '' @ [dq] @ ''transactions'' @ [dq])"
  by (simp add: get_direct_description_def last_hop_def direct_loop_stop quoted_def
      f_direct_def f_age_def to_customers_def transactions_def)

theorem direct_description_unwinds_witness:
  "get_direct_description f_direct2 =
     Inr (f_age, '' of the instance of '' @ [dq] @ ''customers'' @ [dq]
                 @ '' associated with the instance of '' @ [dq] @ ''transactions'' @ [dq]
                 @ '' associated with this instance of '' @ [dq] @ ''log'' @ [dq])
   \<and> kind f_age \<noteq> DirectFeature
   \<and> generate_description ascii_str f_direct Map.empty Map.empty =
       Inr (PyStr (''the '' @ [dq] @ ''age'' @ [dq]
                   @ '' of the instance of '' @ [dq] @ ''customers'' @ [dq]
                   @ '' associated with this instance of '' @ [dq] @ ''transactions'' @ [dq]))"
proof -
  have two: "relationship_path f_direct2 \<noteq> [] \<and> base_features f_direct2 = f_direct # []
      \<and> kind f_direct = DirectFeature \<and> relationship_path f_direct \<noteq> []
      \<and> base_features f_direct = f_age # [] \<and> kind f_age \<noteq> DirectFeature"
    by (simp add: f_direct2_def f_direct_def f_age_def)
  have v: "parent_entity_id (last (relationship_path f_direct)) = ''customers''
      \<and> parent_entity_id (last (relationship_path f_direct2)) = ''transactions''
      \<and> entity_ident (entity f_direct2) = ''log''"
    by (simp add: f_direct2_def f_direct_def to_customers_def to_transactions_def
        log_entity_def)
  have h: "kind f_direct = DirectFeature \<and> \<not> has_description f_direct Map.empty"
    by (simp add: f_direct_def has_description_def dict_contains_def)
  note w2 = direct_description_unwinds [where f = f_direct2 and ?b1.0 = f_direct
      and rest = "[]" and ?b2.0 = f_age and ?rest2.0 = "[]"]
  note w1 = direct_description_unwinds [where f = f_direct and b = f_age
      and d = "'' of the instance of '' @ [dq] @ ''customers'' @ [dq]
         @ '' associated with this instance of '' @ [dq] @ ''transactions'' @ [dq]"
      and fd = Map.empty and pt = Map.empty and s = "''the '' @ quoted ''age''"
      and py = ascii_str]
  have g2: "get_direct_description f_direct2 =
     Inr (f_age, '' of the instance of '' @ [dq] @ ''customers'' @ [dq]
                 @ '' associated with the instance of '' @ [dq] @ ''transactions'' @ [dq]
                 @ '' associated with this instance of '' @ [dq] @ ''log'' @ [dq])"
    using w2 two v by simp
  have g1: "generate_description ascii_str f_direct Map.empty Map.empty =
       Inr (PyStr (''the '' @ [dq] @ ''age'' @ [dq]
                   @ '' of the instance of '' @ [dq] @ ''customers'' @ [dq]
                   @ '' associated with this instance of '' @ [dq] @ ''transactions'' @ [dq]))"
    using w1 h f_direct_unwind f_age_eval by (simp add: quoted_def)
  from g2 g1 two show ?thesis by simp
qed

section \<open>The group-by name\<close>

text \<open>
  With an override that the lookup finds, the group-by name is the override without a
  leading \<^verbatim>\<open>the\<close>; with neither key in the mapping it is the quoted index column
  \<^verbatim>\<open>in\<close> the quoted entity.
\<close>

lemma get_aggregation_groupby_override:
  "py_or (dict_get fd (ObjKey (index_feature_key (entity f))))
         (dict_get fd (NameKey (index_feature_unique_name (entity f)))) = PyStr d
   \<Longrightarrow> get_aggregation_groupby f fd = Inr (if startswith d ''the '' then drop 4 d else d)"
  by (auto simp: get_aggregation_groupby_def dict_contains_def py_or_def dict_get_def
      truthy_def Let_def split: option.splits if_splits)

lemma get_aggregation_groupby_default:
  "\<not> dict_contains fd (ObjKey (index_feature_key (entity f)))
     \<Longrightarrow> \<not> dict_contains fd (NameKey (index_feature_unique_name (entity f)))
     \<Longrightarrow> get_aggregation_groupby f fd =
           Inr ([dq] @ entity_index (entity f) @ [dq] @ '' in ''
                  @ [dq] @ entity_ident (entity f) @ [dq])"
  by (simp add: get_aggregation_groupby_def quoted_def)

text \<open>
  Claim C7 at the input where the code departs from it: the synthetic identity feature
  over the index column is a key of the mapping, with the empty string as its
  description, and no description is stored under its unique name. The override found
  is the empty string, but the resolver raises \<^verbatim>\<open>AttributeError\<close>.
\<close>

theorem get_aggregation_groupby_empty_override_raises:
  "dict_contains empty_index_override (ObjKey (index_feature_key (entity f_mean)))
   \<and> empty_index_override (ObjKey (index_feature_key (entity f_mean))) = Some []
   \<and> get_aggregation_groupby f_mean empty_index_override = Inl AttributeError"
  by (simp add: get_aggregation_groupby_def empty_index_override_def f_mean_def customers_def
      dict_contains_def py_or_def dict_get_def truthy_def)

text \<open>In particular the resolver does not return the override, the empty string.\<close>

theorem get_aggregation_groupby_empty_override_raises_witness:
  "get_aggregation_groupby f_mean empty_index_override \<noteq> Inr []"
  using get_aggregation_groupby_empty_override_raises by simp

section \<open>Overrides that are found\<close>

text \<open>
  A non-empty description stored under the feature, or a description stored under the
  unique name of a feature that is not itself a key, is returned as it is, whatever the
  kind and the children of the feature.
\<close>

lemma generate_description_override_nonempty:
  "fd (ObjKey (feature_key f)) = Some d \<Longrightarrow> d \<noteq> []
     \<Longrightarrow> generate_description py f fd pt = Inr (PyStr d)"
  by (simp add: generate_description_override has_description_def dict_contains_def
      lookup_description_def py_or_def dict_get_def truthy_def)

lemma generate_description_override_by_name:
  "fd (ObjKey (feature_key f)) = None \<Longrightarrow> fd (NameKey (unique_name f)) = Some d
     \<Longrightarrow> generate_description py f fd pt = Inr (PyStr d)"
  by (simp add: generate_description_override has_description_def dict_contains_def
      lookup_description_def py_or_def dict_get_def truthy_def)

text \<open>
  Claim C2 at the input where the code departs from it, seen from the entry point: the
  feature is a key of the mapping, its description is the empty string, the generator
  returns \<^verbatim>\<open>None\<close> and \<^verbatim>\<open>describe_feature\<close> raises \<^verbatim>\<open>TypeError\<close>.
\<close>

theorem describe_feature_empty_override_raises:
  "dict_contains empty_by_key (ObjKey (feature_key f_age))
   \<and> empty_by_key (ObjKey (feature_key f_age)) = Some []
   \<and> generate_description ascii_str f_age empty_by_key Map.empty = Inr PyNone
   \<and> describe_feature ascii_str no_files f_age (Some empty_by_key) None None = Inl TypeError"
  by (simp add: describe_feature_def merged_mappings_def get_default_def capitalize_def
      generate_description_override has_description_def dict_contains_def f_age_def
      empty_by_key_def lookup_description_def py_or_def dict_get_def truthy_def)

section \<open>Overrides with an empty description\<close>



end
